theory Spec2Isabelle
  imports Complex_Main "HOL-Library.AList" "HOL-Library.Multiset"
begin

section \<open>Values and floating-point operations\<close>

text \<open>
  The store is schema-less, so a field of a document holds any value. The values the
  handlers of \<^verbatim>\<open>main.py\<close> can meet are kept apart by a datatype. The type \<open>'f\<close> stands
  for Python's \<^verbatim>\<open>float\<close>: its arithmetic is not fixed here but passed to every function
  as a record of operations, so that each result below holds for whatever \<^verbatim>\<open>+\<close>,
  \<^verbatim>\<open>/\<close>, \<^verbatim>\<open>round\<close> and \<^verbatim>\<open>float(str)\<close> compute.
\<close>

type_synonym time = nat

datatype 'f pyval =
    PNone
  | PBool bool
  | PInt int
  | PFloat 'f
  | PStr string
  | PTime time

type_synonym 'f dict = "(string \<times> 'f pyval) list"

record 'f float_ops =
  fof_int :: "int \<Rightarrow> 'f"
  fadd :: "'f \<Rightarrow> 'f \<Rightarrow> 'f"
  fdiv :: "'f \<Rightarrow> 'f \<Rightarrow> 'f"
  fround :: "'f \<Rightarrow> nat \<Rightarrow> 'f"
  fge0 :: "'f \<Rightarrow> bool"
  fparse :: "string \<Rightarrow> 'f option"

datatype error =
    HTTPException nat string
  | ValidationError
  | ValueError
  | TypeError

text \<open>\<^verbatim>\<open>d.get(k, default)\<close> on a dictionary.\<close>

definition dict_get :: "'f dict \<Rightarrow> string \<Rightarrow> 'f pyval \<Rightarrow> 'f pyval" where
  "dict_get d k dflt = (case map_of d k of None \<Rightarrow> dflt | Some v \<Rightarrow> v)"

text \<open>
  The builtin \<^verbatim>\<open>float(v)\<close>: the identity on a float, a conversion on an integer or a
  boolean (integers read from the store are 64-bit, so the conversion cannot overflow), the
  parser on a string (\<^verbatim>\<open>ValueError\<close> when it rejects the text), \<^verbatim>\<open>TypeError\<close> on
  \<^verbatim>\<open>None\<close> and on a timestamp.
\<close>

fun py_float :: "'f float_ops \<Rightarrow> 'f pyval \<Rightarrow> error + 'f" where
  "py_float F (PFloat x) = Inr x"
| "py_float F (PInt i) = Inr (fof_int F i)"
| "py_float F (PBool b) = Inr (fof_int F (if b then 1 else 0))"
| "py_float F (PStr s) = (case fparse F s of None \<Rightarrow> Inl ValueError | Some x \<Rightarrow> Inr x)"
| "py_float F PNone = Inl TypeError"
| "py_float F (PTime t) = Inl TypeError"

text \<open>\<^verbatim>\<open>str.upper()\<close>, on ASCII letters; every other character is left as it is.\<close>

definition upper_char :: "char \<Rightarrow> char" where
  "upper_char c =
     (case map_of (zip ''abcdefghijklmnopqrstuvwxyz'' ''ABCDEFGHIJKLMNOPQRSTUVWXYZ'') c of
        None \<Rightarrow> c
      | Some u \<Rightarrow> u)"

definition upper :: "string \<Rightarrow> string" where
  "upper s = map upper_char s"

section \<open>Price oracle and address generator\<close>

text \<open>\<^verbatim>\<open>usd_to_crypto\<close> (main.py, lines 31 to 37).\<close>

definition usd_to_crypto :: "'f float_ops \<Rightarrow> 'f \<Rightarrow> string \<Rightarrow> 'f" where
  "usd_to_crypto F amount_usd currency =
     (if currency \<in> {''USDC'', ''USDT''} then fround F amount_usd 2
      else if currency = ''BTC'' then fround F (fdiv F amount_usd (fof_int F 60000)) 8
      else amount_usd)"

text \<open>
  \<^verbatim>\<open>random_address\<close> (main.py, lines 40 to 44). The random source is a function that
  gives the raw draw of each of the 34 rounds; \<^verbatim>\<open>secrets.choice\<close> turns a draw into an
  index below the length of the sequence.
\<close>

definition alphabet :: string where
  "alphabet = ''ABCDEFGHJKLMNPQRSTUVWXYZabcdefghijkmnopqrstuvwxyz123456789''"

definition choice :: "nat \<Rightarrow> 'a list \<Rightarrow> 'a" where
  "choice r seq = seq ! (r mod length seq)"

definition random_address :: "(nat \<Rightarrow> nat) \<Rightarrow> string \<Rightarrow> string" where
  "random_address rnd prefix =
     (let core = map (\<lambda>i. choice (rnd i) alphabet) [0..<34]
      in prefix @ ''_'' @ core)"

section \<open>The document store\<close>

text \<open>
  \<^verbatim>\<open>bson.ObjectId(s)\<close> accepts a text of 24 hexadecimal digits and raises on anything
  else; \<^verbatim>\<open>str\<close> of an identifier prints its lower-case digits.
\<close>

datatype oid = Oid string

fun str_oid :: "oid \<Rightarrow> string" where
  "str_oid (Oid h) = h"

definition is_hex :: "char \<Rightarrow> bool" where
  "is_hex c = (c \<in> set ''0123456789abcdefABCDEF'')"

definition lower_hex :: "char \<Rightarrow> char" where
  "lower_hex c = (case map_of (zip ''ABCDEF'' ''abcdef'') c of None \<Rightarrow> c | Some l \<Rightarrow> l)"

definition ObjectId :: "string \<Rightarrow> oid option" where
  "ObjectId s =
     (if length s = 24 \<and> list_all is_hex s then Some (Oid (map lower_hex s)) else None)"

text \<open>
  Modelled from the spec: the persistence helper module (\<^verbatim>\<open>database.py\<close>, which holds
  \<^verbatim>\<open>db\<close> and \<^verbatim>\<open>create_document\<close>) is not among the sources. Section 6 of the
  specification gives every persisted document its fields, a store-assigned unique
  identifier and a creation timestamp; section 2 gives the store insert, find-one, count,
  update and sorted, limited queries. A collection is the list of its documents in the
  order the store returns them, and a new document goes to the end of it.
\<close>

record 'f doc =
  doc_id :: oid
  created_at :: time
  doc_fields :: "'f dict"

record 'f store =
  product_coll :: "'f doc list"
  paymentintent_coll :: "'f doc list"
  order_coll :: "'f doc list"

text \<open>\<^verbatim>\<open>find_one(filter)\<close>: the first document of the collection the filter accepts.\<close>

definition find_one :: "('f doc \<Rightarrow> bool) \<Rightarrow> 'f doc list \<Rightarrow> 'f doc option" where
  "find_one flt coll = List.find flt coll"

text \<open>\<^verbatim>\<open>update_one(filter, {"$set": kvs})\<close>: the first accepted document gets the fields.\<close>

definition set_fields :: "'f dict \<Rightarrow> 'f doc \<Rightarrow> 'f doc" where
  "set_fields kvs d = d\<lparr>doc_fields := foldl (\<lambda>fs (k, v). AList.update k v fs) (doc_fields d) kvs\<rparr>"

fun update_one :: "('f doc \<Rightarrow> bool) \<Rightarrow> 'f dict \<Rightarrow> 'f doc list \<Rightarrow> 'f doc list" where
  "update_one flt kvs [] = []"
| "update_one flt kvs (d # ds) =
     (if flt d then set_fields kvs d # ds else d # update_one flt kvs ds)"

text \<open>The filter \<^verbatim>\<open>{"_id": i}\<close>.\<close>

definition by_id :: "oid \<Rightarrow> 'f doc \<Rightarrow> bool" where
  "by_id i d = (doc_id d = i)"

text \<open>
  The filter \<^verbatim>\<open>{"_id": {"$exists": True}}\<close>: every stored document has an identifier.
\<close>

definition has_id :: "'f doc \<Rightarrow> bool" where
  "has_id d = True"

text \<open>
  The filter of the default product (main.py, line 124):
  \<^verbatim>\<open>{"_id": {"$exists": True}, "active": True, "title": {"$exists": True}}\<close>.
\<close>

definition active_with_title :: "'f doc \<Rightarrow> bool" where
  "active_with_title d =
     (has_id d \<and> map_of (doc_fields d) ''active'' = Some (PBool True)
      \<and> map_of (doc_fields d) ''title'' \<noteq> None)"

text \<open>
  Modelled from the spec: \<^verbatim>\<open>create_document(collection, model)\<close> stores the fields of
  the model under the identifier the store assigns, stamped with the creation time, and
  returns the identifier as text.
\<close>

definition create_document :: "oid \<Rightarrow> time \<Rightarrow> 'f dict \<Rightarrow> 'f doc list \<Rightarrow> 'f doc list \<times> string" where
  "create_document new_oid created data coll =
     (coll @ [\<lparr>doc_id = new_oid, created_at = created, doc_fields = data\<rparr>], str_oid new_oid)"

text \<open>A document as the dictionary the driver returns, without its \<^verbatim>\<open>_id\<close>.\<close>

definition doc_items :: "'f doc \<Rightarrow> 'f dict" where
  "doc_items d = doc_fields d @ [(''created_at'', PTime (created_at d))]"

section \<open>Schemas\<close>

text \<open>
  The models of \<^verbatim>\<open>schemas.py\<close>. Constructing one validates the arguments: a text field
  takes a string, an amount must pass \<^verbatim>\<open>ge=0\<close>, a \<^verbatim>\<open>Literal\<close> field takes one of its
  values. The result is the dictionary \<^verbatim>\<open>model_dump()\<close> gives.
\<close>

definition currencies :: "string set" where
  "currencies = {''USDC'', ''USDT'', ''BTC''}"

definition statuses :: "string set" where
  "statuses = {''pending'', ''confirmed'', ''expired''}"

fun is_str :: "'f pyval \<Rightarrow> bool" where
  "is_str (PStr s) = True"
| "is_str v = False"

fun is_literal :: "string set \<Rightarrow> 'f pyval \<Rightarrow> bool" where
  "is_literal lits (PStr s) = (s \<in> lits)"
| "is_literal lits v = False"

definition PaymentIntent ::
  "'f float_ops \<Rightarrow> string \<Rightarrow> 'f pyval \<Rightarrow> 'f \<Rightarrow> string \<Rightarrow> string \<Rightarrow> 'f \<Rightarrow> string \<Rightarrow> time
     \<Rightarrow> error + 'f dict" where
  "PaymentIntent F product_id product_title amount_usd currency address amount_crypto
       status expires_at =
     (if is_str product_title \<and> fge0 F amount_usd \<and> currency \<in> currencies
         \<and> fge0 F amount_crypto \<and> status \<in> statuses
      then Inr [(''product_id'', PStr product_id), (''product_title'', product_title),
                (''amount_usd'', PFloat amount_usd), (''currency'', PStr currency),
                (''address'', PStr address), (''amount_crypto'', PFloat amount_crypto),
                (''status'', PStr status), (''expires_at'', PTime expires_at)]
      else Inl ValidationError)"

definition Order ::
  "'f float_ops \<Rightarrow> string \<Rightarrow> 'f pyval \<Rightarrow> 'f pyval \<Rightarrow> 'f \<Rightarrow> 'f pyval \<Rightarrow> 'f \<Rightarrow> error + 'f dict" where
  "Order F intent_id product_id product_title amount_usd currency amount_crypto =
     (if is_str product_id \<and> is_str product_title \<and> fge0 F amount_usd
         \<and> is_literal currencies currency \<and> fge0 F amount_crypto
      then Inr [(''intent_id'', PStr intent_id), (''product_id'', product_id),
                (''product_title'', product_title), (''amount_usd'', PFloat amount_usd),
                (''currency'', currency), (''amount_crypto'', PFloat amount_crypto),
                (''buyer_email'', PNone)]
      else Inl ValidationError)"

section \<open>Requests and environment\<close>

record CheckoutRequest =
  product_id :: string
  currency :: string
  buyer_email :: "string option"

record WebhookMockRequest =
  intent_id :: string
  secret :: string

text \<open>
  What a handler reads from outside the store while it runs: the clock of the handler, the
  clock read when a document is created, the identifier the store assigns to a new
  document, the random source and the variable \<^verbatim>\<open>WEBHOOK_MOCK_SECRET\<close>.
\<close>

record env =
  now :: time
  stamp :: time
  new_id :: oid
  rnd :: "nat \<Rightarrow> nat"
  WEBHOOK_MOCK_SECRET :: "string option"

section \<open>Checkout and payments\<close>

text \<open>The resolution of the product (main.py, lines 124 to 133).\<close>

definition resolve_product :: "'f store \<Rightarrow> string \<Rightarrow> 'f doc option" where
  "resolve_product db pid =
     (let prd = find_one active_with_title (product_coll db)
      in if pid \<noteq> [] then
           (case ObjectId pid of
              None \<Rightarrow> prd
            | Some i \<Rightarrow>
               (case find_one (by_id i) (product_coll db) of
                  None \<Rightarrow> prd
                | Some found \<Rightarrow> Some found))
         else prd)"

text \<open>
  The second lookup and the update of line 157. Indexing the result of a lookup that found
  nothing raises \<^verbatim>\<open>TypeError\<close>.
\<close>

definition attach_email :: "string \<Rightarrow> 'f doc list \<Rightarrow> error + 'f doc list" where
  "attach_email email coll =
     (case find_one has_id coll of
        None \<Rightarrow> Inl TypeError
      | Some first \<Rightarrow> Inr (update_one (by_id (doc_id first)) [(''buyer_email'', PStr email)] coll))"

text \<open>
  \<^verbatim>\<open>create_checkout\<close> (main.py, lines 121 to 159). The result is the store after the
  call together with the error raised or the response.
\<close>

definition create_checkout ::
  "'f float_ops \<Rightarrow> env \<Rightarrow> CheckoutRequest \<Rightarrow> 'f store \<Rightarrow> 'f store \<times> (error + 'f dict)" where
  "create_checkout F E req db =
     (case resolve_product db (product_id req) of
        None \<Rightarrow> (db, Inl (HTTPException 404 ''Product not found''))
      | Some prd \<Rightarrow>
         (case py_float F (dict_get (doc_fields prd) ''price_usd'' (PInt 0)) of
            Inl e \<Rightarrow> (db, Inl e)
          | Inr amount_usd \<Rightarrow>
             (let cur = upper (currency req);
                  address = random_address (rnd E) cur;
                  amount_crypto = usd_to_crypto F amount_usd cur;
                  expires_at = now E + 30 * 60
              in case PaymentIntent F (str_oid (doc_id prd))
                        (dict_get (doc_fields prd) ''title'' (PStr ''''))
                        amount_usd cur address amount_crypto ''pending'' expires_at of
                   Inl e \<Rightarrow> (db, Inl e)
                 | Inr intent \<Rightarrow>
                    (let (coll, iid) =
                           create_document (new_id E) (stamp E) intent (paymentintent_coll db);
                         db1 = db\<lparr>paymentintent_coll := coll\<rparr>;
                         response = [(''intent_id'', PStr iid), (''address'', PStr address),
                                     (''currency'', PStr cur),
                                     (''amount_crypto'', PFloat amount_crypto),
                                     (''amount_usd'', PFloat amount_usd)]
                     in case buyer_email req of
                          None \<Rightarrow> (db1, Inr response)
                        | Some email \<Rightarrow>
                           (if email \<noteq> [] then
                              (case attach_email email coll of
                                 Inl e \<Rightarrow> (db1, Inl e)
                               | Inr coll' \<Rightarrow> (db\<lparr>paymentintent_coll := coll'\<rparr>, Inr response))
                            else (db1, Inr response))))))"

text \<open>\<^verbatim>\<open>get_payment_status\<close> (main.py, lines 162 to 174).\<close>

definition get_payment_status :: "'f store \<Rightarrow> string \<Rightarrow> error + 'f dict" where
  "get_payment_status db iid =
     (case ObjectId iid of
        None \<Rightarrow> Inl (HTTPException 404 ''Invalid intent id'')
      | Some i \<Rightarrow>
         (case find_one (by_id i) (paymentintent_coll db) of
            None \<Rightarrow> Inl (HTTPException 404 ''Payment intent not found'')
          | Some d \<Rightarrow> Inr (AList.update ''intent_id'' (PStr iid) (doc_items d))))"

text \<open>\<^verbatim>\<open>webhook_mark_paid\<close> (main.py, lines 177 to 210).\<close>

definition webhook_mark_paid ::
  "'f float_ops \<Rightarrow> env \<Rightarrow> WebhookMockRequest \<Rightarrow> 'f store \<Rightarrow> 'f store \<times> (error + 'f dict)" where
  "webhook_mark_paid F E req db =
     (let expected = (case WEBHOOK_MOCK_SECRET E of None \<Rightarrow> ''demo-secret'' | Some v \<Rightarrow> v)
      in if secret req \<noteq> expected then (db, Inl (HTTPException 401 ''Unauthorized''))
         else
           (case ObjectId (intent_id req) of
              None \<Rightarrow> (db, Inl (HTTPException 400 ''Invalid intent id''))
            | Some i \<Rightarrow>
               (case find_one (by_id i) (paymentintent_coll db) of
                  None \<Rightarrow> (db, Inl (HTTPException 404 ''Intent not found''))
                | Some intent \<Rightarrow>
                   (if dict_get (doc_fields intent) ''status'' PNone = PStr ''confirmed''
                    then (db, Inr [(''status'', PStr ''already_confirmed'')])
                    else
                      (let db1 = db\<lparr>paymentintent_coll :=
                                   update_one (by_id i)
                                     [(''status'', PStr ''confirmed''),
                                      (''confirmed_at'', PTime (now E))]
                                     (paymentintent_coll db)\<rparr>
                       in case py_float F (dict_get (doc_fields intent) ''amount_usd'' (PInt 0)) of
                            Inl e \<Rightarrow> (db1, Inl e)
                          | Inr amount_usd \<Rightarrow>
                             (case py_float F
                                     (dict_get (doc_fields intent) ''amount_crypto'' (PInt 0)) of
                                Inl e \<Rightarrow> (db1, Inl e)
                              | Inr amount_crypto \<Rightarrow>
                                 (case Order F (intent_id req)
                                         (dict_get (doc_fields intent) ''product_id'' (PStr ''''))
                                         (dict_get (doc_fields intent) ''product_title'' (PStr ''''))
                                         amount_usd
                                         (dict_get (doc_fields intent) ''currency'' (PStr ''USDC''))
                                         amount_crypto of
                                    Inl e \<Rightarrow> (db1, Inl e)
                                  | Inr order \<Rightarrow>
                                     (let (coll, order_id) =
                                            create_document (new_id E) (stamp E) order
                                              (order_coll db1)
                                      in (db1\<lparr>order_coll := coll\<rparr>,
                                          Inr [(''status'', PStr ''confirmed''),
                                               (''order_id'', PStr order_id)])))))))))"

section \<open>Dashboard\<close>





section \<open>Conformance to the schema\<close>

text \<open>
  A stored document conforms to a model of \<^verbatim>\<open>schemas.py\<close> when each required field is
  present with a value of the field's type.
\<close>

definition field_str :: "'f dict \<Rightarrow> string \<Rightarrow> bool" where
  "field_str d k = (case map_of d k of Some (PStr s) \<Rightarrow> True | _ \<Rightarrow> False)"

definition field_amount :: "'f float_ops \<Rightarrow> 'f dict \<Rightarrow> string \<Rightarrow> bool" where
  "field_amount F d k = (case map_of d k of Some (PFloat x) \<Rightarrow> fge0 F x | _ \<Rightarrow> False)"


definition is_Product :: "'f float_ops \<Rightarrow> 'f dict \<Rightarrow> bool" where
  "is_Product F d = (field_str d ''title'' \<and> field_amount F d ''price_usd'')"


section \<open>A concrete instance\<close>

text \<open>
  One instance of the floating-point operations, with exact rational arithmetic, rounding
  half to even on the decimal digits, and a parser that reads plain digit strings. It
  serves to run the handlers on concrete stores.
\<close>

definition round_half_even :: "rat \<Rightarrow> int" where
  "round_half_even y =
     (let f = \<lfloor>y\<rfloor>; d = y - of_int f
      in if d < 1 / 2 then f else if 1 / 2 < d then f + 1 else if even f then f else f + 1)"

definition parse_digits :: "string \<Rightarrow> rat option" where
  "parse_digits s =
     (if s \<noteq> [] \<and> list_all (\<lambda>c. c \<in> set ''0123456789'') s
      then Some (of_nat (foldl (\<lambda>n c. 10 * n + (of_char c - 48)) 0 s))
      else None)"

definition exact_ops :: "rat float_ops" where
  "exact_ops =
     \<lparr>fof_int = of_int, fadd = (+), fdiv = (/),
      fround = (\<lambda>x n. of_int (round_half_even (x * 10 ^ n)) / 10 ^ n),
      fge0 = (\<lambda>x. 0 \<le> x), fparse = parse_digits\<rparr>"

definition demo_env :: env where
  "demo_env =
     \<lparr>now = 1000, stamp = 1001, new_id = Oid ''cccccccccccccccccccccccc'',
      rnd = (\<lambda>i. 7 * i), WEBHOOK_MOCK_SECRET = None\<rparr>"

definition demo_product :: "rat doc" where
  "demo_product =
     \<lparr>doc_id = Oid ''aaaaaaaaaaaaaaaaaaaaaaaa'', created_at = 10,
      doc_fields = [(''title'', PStr ''Mug''), (''description'', PNone),
                    (''price_usd'', PFloat 120), (''image_url'', PNone),
                    (''active'', PBool True)]\<rparr>"

definition demo_intent :: "rat doc" where
  "demo_intent =
     \<lparr>doc_id = Oid ''bbbbbbbbbbbbbbbbbbbbbbbb'', created_at = 20,
      doc_fields = [(''product_id'', PStr ''aaaaaaaaaaaaaaaaaaaaaaaa''),
                    (''product_title'', PStr ''Mug''), (''amount_usd'', PFloat 120),
                    (''currency'', PStr ''BTC''), (''address'', PStr ''BTC_x''),
                    (''amount_crypto'', PFloat (1 / 500)), (''status'', PStr ''pending''),
                    (''expires_at'', PTime 1820)]\<rparr>"

definition demo_store :: "rat store" where
  "demo_store =
     \<lparr>product_coll = [demo_product], paymentintent_coll = [demo_intent], order_coll = []\<rparr>"

definition demo_confirmed_intent :: "rat doc" where
  "demo_confirmed_intent =
     \<lparr>doc_id = Oid ''bbbbbbbbbbbbbbbbbbbbbbbb'', created_at = 20,
      doc_fields = [(''product_id'', PStr ''aaaaaaaaaaaaaaaaaaaaaaaa''),
                    (''product_title'', PStr ''Mug''), (''amount_usd'', PFloat 120),
                    (''currency'', PStr ''BTC''), (''address'', PStr ''BTC_x''),
                    (''amount_crypto'', PFloat (1 / 500)), (''status'', PStr ''confirmed''),
                    (''expires_at'', PTime 1820), (''confirmed_at'', PTime 900)]\<rparr>"

definition demo_store_confirmed :: "rat store" where
  "demo_store_confirmed =
     \<lparr>product_coll = [demo_product], paymentintent_coll = [demo_confirmed_intent],
      order_coll = []\<rparr>"

definition demo_confirm :: WebhookMockRequest where
  "demo_confirm = \<lparr>intent_id = ''bbbbbbbbbbbbbbbbbbbbbbbb'', secret = ''demo-secret''\<rparr>"

definition demo_checkout :: "string \<Rightarrow> string option \<Rightarrow> CheckoutRequest" where
  "demo_checkout pid email = \<lparr>product_id = pid, currency = ''btc'', buyer_email = email\<rparr>"



section \<open>Notions used in the statements\<close>

text \<open>The direct lookup of a product by the identifier of the request.\<close>

definition lookup_product :: "'f store \<Rightarrow> string \<Rightarrow> 'f doc option" where
  "lookup_product db pid =
     (case ObjectId pid of None \<Rightarrow> None | Some i \<Rightarrow> find_one (by_id i) (product_coll db))"

text \<open>
  An intent document \<open>d\<close> is made from a product \<open>p\<close>: it carries the identifier of
  \<open>p\<close> as text, its title and its price, and it is pending.
\<close>

definition made_from :: "'f doc \<Rightarrow> 'f doc \<Rightarrow> bool" where
  "made_from p d =
     (map_of (doc_fields d) ''product_id'' = Some (PStr (str_oid (doc_id p)))
      \<and> map_of (doc_fields d) ''product_title'' = map_of (doc_fields p) ''title''
      \<and> map_of (doc_fields d) ''amount_usd'' = map_of (doc_fields p) ''price_usd''
      \<and> map_of (doc_fields d) ''status'' = Some (PStr ''pending''))"




text \<open>The \<^verbatim>\<open>buyer_email\<close> field of each document of a collection.\<close>

definition emails :: "'f doc list \<Rightarrow> 'f pyval option list" where
  "emails coll = map (\<lambda>d. map_of (doc_fields d) ''buyer_email'') coll"

text \<open>
  The document checkout stores for a product \<open>p\<close> with price \<open>x\<close> and title \<open>t\<close> in the
  currency \<open>cur\<close>, the response it returns, and the collection after the buyer's email
  has gone to the document the second lookup returns first.
\<close>

definition checkout_intent :: "'f float_ops \<Rightarrow> env \<Rightarrow> 'f doc \<Rightarrow> 'f \<Rightarrow> string \<Rightarrow> string \<Rightarrow> 'f doc" where
  "checkout_intent F E p x t cur =
     \<lparr>doc_id = new_id E, created_at = stamp E,
      doc_fields = [(''product_id'', PStr (str_oid (doc_id p))), (''product_title'', PStr t),
                    (''amount_usd'', PFloat x), (''currency'', PStr cur),
                    (''address'', PStr (random_address (rnd E) cur)),
                    (''amount_crypto'', PFloat (usd_to_crypto F x cur)),
                    (''status'', PStr ''pending''), (''expires_at'', PTime (now E + 1800))]\<rparr>"

definition checkout_response :: "'f float_ops \<Rightarrow> env \<Rightarrow> 'f \<Rightarrow> string \<Rightarrow> 'f dict" where
  "checkout_response F E x cur =
     [(''intent_id'', PStr (str_oid (new_id E))),
      (''address'', PStr (random_address (rnd E) cur)), (''currency'', PStr cur),
      (''amount_crypto'', PFloat (usd_to_crypto F x cur)), (''amount_usd'', PFloat x)]"

fun with_email :: "string option \<Rightarrow> 'f doc list \<Rightarrow> 'f doc list" where
  "with_email None coll = coll"
| "with_email (Some e) [] = []"
| "with_email (Some e) (d # ds) =
     (if e = [] then d # ds else set_fields [(''buyer_email'', PStr e)] d # ds)"

section \<open>Properties of the price oracle\<close>

text \<open>
  Claim C6. The conversion of an amount \<open>a\<close>: for \<^verbatim>\<open>USDC\<close> and for \<^verbatim>\<open>USDT\<close> it is
  \<open>a\<close> rounded to 2 decimal places, for \<^verbatim>\<open>BTC\<close> it is \<open>a / 60000\<close> rounded to 8
  decimal places, and for any other currency text it is \<open>a\<close> itself, neither rounded nor
  converted. It holds for every amount (so for every non-negative one) and for whatever
  rounding and division the floats have; the function is total and touches no state.
\<close>

theorem usd_to_crypto_cases:
  "usd_to_crypto F a ''USDC'' = fround F a 2
   \<and> usd_to_crypto F a ''USDT'' = fround F a 2
   \<and> usd_to_crypto F a ''BTC'' = fround F (fdiv F a (fof_int F 60000)) 8
   \<and> (c \<notin> currencies \<longrightarrow> usd_to_crypto F a c = a)"
  by (simp add: usd_to_crypto_def currencies_def)

theorem usd_to_crypto_cases_witness:
  "''ETH'' \<notin> currencies \<and> usd_to_crypto exact_ops (5 / 2) ''ETH'' = 5 / 2"
proof -
  have h: "''ETH'' \<notin> currencies"
    by (simp add: currencies_def)
  from usd_to_crypto_cases [of exact_ops "5 / 2" "''ETH''"] h show ?thesis
    by blast
qed

section \<open>Properties of the address generator\<close>

lemma length_alphabet: "length alphabet = 58"
  by (simp add: alphabet_def)

lemma distinct_alphabet: "distinct alphabet"
  by (simp add: alphabet_def)

text \<open>
  Claim C9. For every prefix and every outcome of the random source, the generated address
  is the prefix, an underscore and then exactly 34 characters, each of them a symbol of
  the alphabet, which has 58 distinct symbols.
\<close>

theorem random_address_shape:
  "(\<exists>core. random_address r p = p @ ''_'' @ core \<and> length core = 34
       \<and> list_all (\<lambda>c. c \<in> set alphabet) core)
   \<and> alphabet = ''ABCDEFGHJKLMNPQRSTUVWXYZabcdefghijkmnopqrstuvwxyz123456789''
   \<and> length alphabet = 58 \<and> distinct alphabet"
proof -
  let ?core = "map (\<lambda>i. alphabet ! (r i mod length alphabet)) [0..<34]"
  have "random_address r p = p @ ''_'' @ ?core"
    by (simp add: random_address_def choice_def)
  moreover have "length ?core = 34"
    by simp
  moreover have "list_all (\<lambda>c. c \<in> set alphabet) ?core"
    by (simp add: list_all_iff length_alphabet)
  ultimately have "\<exists>core. random_address r p = p @ ''_'' @ core \<and> length core = 34
       \<and> list_all (\<lambda>c. c \<in> set alphabet) core"
    by blast
  then show ?thesis
    using length_alphabet distinct_alphabet by (simp add: alphabet_def)
qed

section \<open>Lemmas on documents and collections\<close>









lemma map_of_set_fields1:
  "map_of (doc_fields (set_fields [(k1, v1)] d)) = (map_of (doc_fields d))(k1 \<mapsto> v1)"
  by (simp add: set_fields_def update_conv')

section \<open>Properties of the webhook confirmation\<close>

text \<open>
  Claim C8. A confirm call whose secret differs from the configured one (the text
  \<^verbatim>\<open>demo-secret\<close> when none is configured) fails with status 401 and leaves the whole
  store as it was, whatever the intent identifier is.
\<close>

theorem webhook_wrong_secret:
  assumes "secret req \<noteq> (case WEBHOOK_MOCK_SECRET E of None \<Rightarrow> ''demo-secret'' | Some v \<Rightarrow> v)"
  shows "webhook_mark_paid F E req db = (db, Inl (HTTPException 401 ''Unauthorized''))"
  using assms by (simp add: webhook_mark_paid_def)

theorem webhook_wrong_secret_witness:
  "webhook_mark_paid exact_ops demo_env
     \<lparr>intent_id = ''bbbbbbbbbbbbbbbbbbbbbbbb'', secret = ''guess''\<rparr> demo_store
   = (demo_store, Inl (HTTPException 401 ''Unauthorized''))"
  using webhook_wrong_secret [of "\<lparr>intent_id = ''bbbbbbbbbbbbbbbbbbbbbbbb'', secret = ''guess''\<rparr>"
      demo_env exact_ops demo_store]
  by (simp add: demo_env_def)

text \<open>
  Claim C3. A confirm call with the right secret on an existing intent whose status is
  already \<^verbatim>\<open>confirmed\<close> answers \<^verbatim>\<open>already_confirmed\<close> and returns the store as it was:
  no order is added and no field of the intent, \<^verbatim>\<open>confirmed_at\<close> included, changes.
\<close>

theorem webhook_already_confirmed:
  assumes "secret req = (case WEBHOOK_MOCK_SECRET E of None \<Rightarrow> ''demo-secret'' | Some v \<Rightarrow> v)"
    and "ObjectId (intent_id req) = Some i"
    and "find_one (by_id i) (paymentintent_coll db) = Some intent"
    and "dict_get (doc_fields intent) ''status'' PNone = PStr ''confirmed''"
  shows "webhook_mark_paid F E req db = (db, Inr [(''status'', PStr ''already_confirmed'')])"
  using assms by (simp add: webhook_mark_paid_def)


lemma demo_oid: "ObjectId ''bbbbbbbbbbbbbbbbbbbbbbbb'' = Some (Oid ''bbbbbbbbbbbbbbbbbbbbbbbb'')"
  by (simp add: ObjectId_def is_hex_def lower_hex_def)


theorem webhook_already_confirmed_witness:
  "webhook_mark_paid exact_ops demo_env demo_confirm demo_store_confirmed =
     (demo_store_confirmed, Inr [(''status'', PStr ''already_confirmed'')])"
proof -
  have h1: "secret demo_confirm =
      (case WEBHOOK_MOCK_SECRET demo_env of None \<Rightarrow> ''demo-secret'' | Some v \<Rightarrow> v)"
    by (simp add: demo_confirm_def demo_env_def)
  have h2: "ObjectId (intent_id demo_confirm) = Some (Oid ''bbbbbbbbbbbbbbbbbbbbbbbb'')"
    by (simp add: demo_confirm_def demo_oid)
  have h3: "find_one (by_id (Oid ''bbbbbbbbbbbbbbbbbbbbbbbb''))
      (paymentintent_coll demo_store_confirmed) = Some demo_confirmed_intent"
    by (simp add: find_one_def by_id_def demo_store_confirmed_def demo_confirmed_intent_def)
  have h4: "dict_get (doc_fields demo_confirmed_intent) ''status'' PNone = PStr ''confirmed''"
    by (simp add: dict_get_def demo_confirmed_intent_def)
  from webhook_already_confirmed [OF h1 h2 h3 h4] show ?thesis .
qed

section \<open>Properties of checkout\<close>

lemma attach_email_Cons:
  "attach_email e (d # ds) = Inr (set_fields [(''buyer_email'', PStr e)] d # ds)"
  by (simp add: attach_email_def find_one_def has_id_def by_id_def)

lemma PaymentIntent_no_email:
  "PaymentIntent F pid title a cur addr c st ex = Inr intent \<Longrightarrow>
   map_of intent ''buyer_email'' = None"
  by (auto simp: PaymentIntent_def split: if_splits)

lemma create_checkout_run:
  assumes p: "resolve_product db (product_id req) = Some p"
    and x: "map_of (doc_fields p) ''price_usd'' = Some (PFloat x)"
    and x0: "fge0 F x"
    and t: "map_of (doc_fields p) ''title'' = Some (PStr t)"
    and cur: "upper (currency req) \<in> currencies"
    and c0: "fge0 F (usd_to_crypto F x (upper (currency req)))"
  shows "create_checkout F E req db =
     (db\<lparr>paymentintent_coll :=
           with_email (buyer_email req)
             (paymentintent_coll db @ [checkout_intent F E p x t (upper (currency req))])\<rparr>,
      Inr (checkout_response F E x (upper (currency req))))"
proof -
  let ?cur = "upper (currency req)"
  let ?new = "checkout_intent F E p x t ?cur"
  let ?coll = "paymentintent_coll db @ [?new]"
  have pf: "py_float F (dict_get (doc_fields p) ''price_usd'' (PInt 0)) = Inr x"
    using x by (simp add: dict_get_def)
  have pi: "PaymentIntent F (str_oid (doc_id p)) (dict_get (doc_fields p) ''title'' (PStr ''''))
       x ?cur (random_address (rnd E) ?cur) (usd_to_crypto F x ?cur) ''pending''
       (now E + 30 * 60) = Inr (doc_fields ?new)"
    using t x0 cur c0
    by (simp add: PaymentIntent_def dict_get_def statuses_def checkout_intent_def)
  have cd: "create_document (new_id E) (stamp E) (doc_fields ?new) (paymentintent_coll db)
      = (?coll, str_oid (new_id E))"
    by (simp add: create_document_def checkout_intent_def)
  show ?thesis
  proof (cases "buyer_email req")
    case None
    then show ?thesis
      using p pf pi cd
      by (simp add: create_checkout_def Let_def checkout_response_def)
  next
    case (Some e)
    obtain first rest where fr: "?coll = first # rest"
      by (cases ?coll) simp_all
    have att: "attach_email e ?coll = Inr (set_fields [(''buyer_email'', PStr e)] first # rest)"
      unfolding fr by (rule attach_email_Cons)
    show ?thesis
      using Some p pf pi cd att fr
      by (simp add: create_checkout_def Let_def checkout_response_def)
  qed
qed

lemma py_float_error: "py_float F v = Inl e \<Longrightarrow> e = ValueError \<or> e = TypeError"
  by (cases v) (auto split: option.splits)

lemma PaymentIntent_error:
  "PaymentIntent F pid title a cur addr c st ex = Inl e \<Longrightarrow> e = ValidationError"
  by (auto simp: PaymentIntent_def split: if_splits)

lemma attach_email_error: "attach_email e coll = Inl err \<Longrightarrow> err = TypeError"
  by (auto simp: attach_email_def split: option.splits)

lemma create_checkout_resolved:
  assumes "resolve_product db (product_id req) = Some p"
  shows "snd (create_checkout F E req db) \<noteq> Inl (HTTPException code msg)"
  using assms
  by (auto simp: create_checkout_def Let_def create_document_def
      split: sum.splits option.splits if_splits
      dest: py_float_error PaymentIntent_error attach_email_error)

lemma create_checkout_404_iff:
  "(create_checkout F E req db = (db, Inl (HTTPException 404 ''Product not found'')))
   = (resolve_product db (product_id req) = None)"
proof (cases "resolve_product db (product_id req)")
  case None
  then show ?thesis
    by (simp add: create_checkout_def)
next
  case (Some p)
  from create_checkout_resolved [OF Some, of F E 404 "''Product not found''"]
  show ?thesis
    using Some by (auto simp del: One_nat_def)
qed

lemma resolve_product_None_iff:
  "(resolve_product db pid = None)
   = (lookup_product db pid = None \<and> find_one active_with_title (product_coll db) = None)"
  by (auto simp: resolve_product_def lookup_product_def ObjectId_def Let_def
      split: option.splits)

lemma resolve_product_fallback:
  "lookup_product db pid = None \<Longrightarrow>
   resolve_product db pid = find_one active_with_title (product_coll db)"
  by (auto simp: resolve_product_def lookup_product_def Let_def split: option.splits)

lemma made_from_checkout_intent:
  "map_of (doc_fields p) ''price_usd'' = Some (PFloat x) \<Longrightarrow>
   map_of (doc_fields p) ''title'' = Some (PStr t) \<Longrightarrow>
   made_from p (checkout_intent F E p x t cur)"
  by (simp add: made_from_def checkout_intent_def)

lemma demo_resolve_nope: "resolve_product demo_store ''nope'' = Some demo_product"
  by (simp add: resolve_product_def ObjectId_def find_one_def active_with_title_def has_id_def
      demo_store_def demo_product_def)

lemma upper_btc: "upper ''btc'' = ''BTC''"
  by (simp add: upper_def upper_char_def)

lemma demo_crypto: "usd_to_crypto exact_ops 120 ''BTC'' = 1 / 500"
  by (simp add: usd_to_crypto_def exact_ops_def round_half_even_def)

lemma demo_checkout_run:
  "create_checkout exact_ops demo_env (demo_checkout ''nope'' email) demo_store =
     (demo_store\<lparr>paymentintent_coll :=
           with_email email
             [demo_intent, checkout_intent exact_ops demo_env demo_product 120 ''Mug'' ''BTC'']\<rparr>,
      Inr (checkout_response exact_ops demo_env 120 ''BTC''))"
proof -
  let ?req = "demo_checkout ''nope'' email"
  have cur: "upper (currency ?req) = ''BTC''"
    by (simp add: demo_checkout_def upper_btc)
  have p: "resolve_product demo_store (product_id ?req) = Some demo_product"
    by (simp add: demo_checkout_def demo_resolve_nope)
  have x: "map_of (doc_fields demo_product) ''price_usd'' = Some (PFloat 120)"
    by (simp add: demo_product_def)
  have x0: "fge0 exact_ops 120"
    by (simp add: exact_ops_def)
  have t: "map_of (doc_fields demo_product) ''title'' = Some (PStr ''Mug'')"
    by (simp add: demo_product_def)
  have c: "upper (currency ?req) \<in> currencies"
    by (simp add: cur currencies_def)
  have c0: "fge0 exact_ops (usd_to_crypto exact_ops 120 (upper (currency ?req)))"
    by (simp add: cur demo_crypto) (simp add: exact_ops_def)
  have "paymentintent_coll demo_store = [demo_intent]" "buyer_email ?req = email"
    by (simp_all add: demo_store_def demo_checkout_def)
  with create_checkout_run [OF p x x0 t c c0, of demo_env] cur show ?thesis
    by simp
qed

lemma upper_eth: "upper ''eth'' = ''ETH''"
  by (simp add: upper_def upper_char_def)

lemma demo_resolve_empty: "resolve_product demo_store '''' = Some demo_product"
  by (simp add: resolve_product_def find_one_def active_with_title_def has_id_def
      demo_store_def demo_product_def)

lemma demo_bad_currency:
  assumes "resolve_product demo_store pid = Some demo_product"
  shows "create_checkout exact_ops demo_env
      \<lparr>product_id = pid, currency = ''eth'', buyer_email = None\<rparr> demo_store
    = (demo_store, Inl ValidationError)"
proof -
  have pf: "py_float exact_ops (dict_get (doc_fields demo_product) ''price_usd'' (PInt 0))
      = Inr 120"
    by (simp add: demo_product_def dict_get_def)
  have pi: "PaymentIntent exact_ops pid' title 120 ''ETH'' addr c st ex = Inl ValidationError"
    for pid' title addr c st ex
    by (simp add: PaymentIntent_def currencies_def)
  show ?thesis
    using assms pf pi by (simp add: create_checkout_def upper_eth Let_def)
qed

text \<open>
  Claim C4, amended. Take a checkout call that returns a response. It has stored a new
  intent, without a \<^verbatim>\<open>buyer_email\<close> of its own, at the end of the intent collection,
  and has changed neither the products nor the orders. When no \<^verbatim>\<open>buyer_email\<close> is given,
  or the empty text is given, nothing else changes. When a non-empty \<^verbatim>\<open>buyer_email\<close> is
  given, the email is set on the document that a separate lookup for any document of the
  collection returns first; whenever the collection held an intent before the call, that is
  the first old intent and not the new one, which stays without an email.
\<close>

theorem checkout_buyer_email:
  assumes run: "create_checkout F E req db = (db', Inr resp)"
  shows "\<exists>new. doc_id new = new_id E \<and> map_of (doc_fields new) ''buyer_email'' = None
     \<and> product_coll db' = product_coll db \<and> order_coll db' = order_coll db
     \<and> (case buyer_email req of
          None \<Rightarrow> paymentintent_coll db' = paymentintent_coll db @ [new]
        | Some e \<Rightarrow>
           if e = [] then paymentintent_coll db' = paymentintent_coll db @ [new]
           else (\<exists>first. find_one has_id (paymentintent_coll db @ [new]) = Some first
                   \<and> paymentintent_coll db' =
                       update_one (by_id (doc_id first)) [(''buyer_email'', PStr e)]
                         (paymentintent_coll db @ [new])
                   \<and> (\<forall>d ds. paymentintent_coll db = d # ds \<longrightarrow>
                         first = d \<and> paymentintent_coll db' =
                           set_fields [(''buyer_email'', PStr e)] d # ds @ [new])))"
proof -
  from run obtain p where p: "resolve_product db (product_id req) = Some p"
    by (auto simp: create_checkout_def split: option.splits)
  from run p obtain x where x: "py_float F (dict_get (doc_fields p) ''price_usd'' (PInt 0)) = Inr x"
    by (auto simp: create_checkout_def split: sum.splits)
  let ?cur = "upper (currency req)"
  from run p x obtain intent where
    intent: "PaymentIntent F (str_oid (doc_id p)) (dict_get (doc_fields p) ''title'' (PStr ''''))
       x ?cur (random_address (rnd E) ?cur) (usd_to_crypto F x ?cur) ''pending''
       (now E + 30 * 60) = Inr intent"
    by (auto simp: create_checkout_def Let_def split: sum.splits)
  let ?new = "\<lparr>doc_id = new_id E, created_at = stamp E, doc_fields = intent\<rparr>"
  let ?coll = "paymentintent_coll db @ [?new]"
  have noemail: "map_of (doc_fields ?new) ''buyer_email'' = None"
    using PaymentIntent_no_email [OF intent] by simp
  show ?thesis
  proof (cases "buyer_email req")
    case None
    with run p x intent have "db' = db\<lparr>paymentintent_coll := ?coll\<rparr>"
      by (simp add: create_checkout_def Let_def create_document_def)
    with None noemail show ?thesis
      by (intro exI [where x = ?new]) simp
  next
    case (Some e)
    show ?thesis
    proof (cases "e = []")
      case True
      with Some run p x intent have "db' = db\<lparr>paymentintent_coll := ?coll\<rparr>"
        by (simp add: create_checkout_def Let_def create_document_def)
      with Some True noemail show ?thesis
        by (intro exI [where x = ?new]) simp
    next
      case False
      obtain first rest where fr: "?coll = first # rest"
        by (cases ?coll) simp_all
      have att: "attach_email e ?coll = Inr (set_fields [(''buyer_email'', PStr e)] first # rest)"
        unfolding fr by (rule attach_email_Cons)
      from Some False run p x intent att
      have db': "db' = db\<lparr>paymentintent_coll :=
          set_fields [(''buyer_email'', PStr e)] first # rest\<rparr>"
        by (simp add: create_checkout_def Let_def create_document_def)
      have fo: "find_one has_id ?coll = Some first"
        unfolding fr by (simp add: find_one_def has_id_def)
      have upd: "update_one (by_id (doc_id first)) [(''buyer_email'', PStr e)] ?coll
          = set_fields [(''buyer_email'', PStr e)] first # rest"
        unfolding fr by (simp add: by_id_def)
      have old: "\<forall>d ds. paymentintent_coll db = d # ds \<longrightarrow>
          first = d \<and> rest = ds @ [?new]"
        using fr by auto
      from Some False noemail db' fo upd old show ?thesis
        by (intro exI [where x = ?new]) auto
    qed
  qed
qed

theorem checkout_buyer_email_witness:
  "\<exists>db' new. fst (create_checkout exact_ops demo_env
        (demo_checkout ''nope'' (Some ''a@b.c'')) demo_store) = db'
     \<and> paymentintent_coll db' = [set_fields [(''buyer_email'', PStr ''a@b.c'')] demo_intent, new]
     \<and> map_of (doc_fields new) ''buyer_email'' = None"
proof -
  let ?req = "demo_checkout ''nope'' (Some ''a@b.c'')"
  obtain db' resp where run: "create_checkout exact_ops demo_env ?req demo_store = (db', Inr resp)"
    using demo_checkout_run by blast
  have e: "buyer_email ?req = Some ''a@b.c''"
    by (simp add: demo_checkout_def)
  have old: "paymentintent_coll demo_store = [demo_intent]"
    by (simp add: demo_store_def)
  from checkout_buyer_email [OF run] e old show ?thesis
    using run by auto
qed

text \<open>
  The claim as it was stated lets every supplied \<^verbatim>\<open>buyer_email\<close> be attached. With the
  empty text supplied, the call succeeds and no intent of the collection has an email.
\<close>

theorem checkout_empty_email:
  "emails (paymentintent_coll (fst (create_checkout exact_ops demo_env
      (demo_checkout ''nope'' (Some '''')) demo_store))) = [None, None]
   \<and> \<not> isl (snd (create_checkout exact_ops demo_env
      (demo_checkout ''nope'' (Some '''')) demo_store))"
  by (simp add: demo_checkout_run emails_def demo_intent_def checkout_intent_def)

text \<open>
  Claim C1, amended. Take a checkout call whose currency, in upper case, is one of
  \<^verbatim>\<open>USDC\<close>, \<^verbatim>\<open>USDT\<close> and \<^verbatim>\<open>BTC\<close>. When the direct lookup of the request's
  \<^verbatim>\<open>product_id\<close> gives nothing (the text is malformed or names no stored product) and
  an active product with a title exists, checkout does not fail: for a product of the
  \<^verbatim>\<open>Product\<close> schema it stores an intent made from the first such active product and
  answers with it. For every call, checkout fails with status 404 exactly when the direct
  lookup gives nothing and no active product with a title exists; the store is then
  unchanged.
\<close>

theorem checkout_fallback:
  "(lookup_product db (product_id req) = None
      \<and> find_one active_with_title (product_coll db) = Some p
      \<and> map_of (doc_fields p) ''price_usd'' = Some (PFloat x) \<and> fge0 F x
      \<and> map_of (doc_fields p) ''title'' = Some (PStr t)
      \<and> upper (currency req) \<in> currencies
      \<and> fge0 F (usd_to_crypto F x (upper (currency req)))
    \<longrightarrow> create_checkout F E req db =
          (db\<lparr>paymentintent_coll :=
                with_email (buyer_email req)
                  (paymentintent_coll db @ [checkout_intent F E p x t (upper (currency req))])\<rparr>,
           Inr (checkout_response F E x (upper (currency req))))
        \<and> made_from p (checkout_intent F E p x t (upper (currency req))))
   \<and> ((create_checkout F E req db = (db, Inl (HTTPException 404 ''Product not found'')))
       = (lookup_product db (product_id req) = None
          \<and> find_one active_with_title (product_coll db) = None))"
proof (intro conjI impI)
  assume h: "lookup_product db (product_id req) = None
      \<and> find_one active_with_title (product_coll db) = Some p
      \<and> map_of (doc_fields p) ''price_usd'' = Some (PFloat x) \<and> fge0 F x
      \<and> map_of (doc_fields p) ''title'' = Some (PStr t)
      \<and> upper (currency req) \<in> currencies
      \<and> fge0 F (usd_to_crypto F x (upper (currency req)))"
  then have r: "resolve_product db (product_id req) = Some p"
    by (simp add: resolve_product_fallback)
  from h show "create_checkout F E req db =
          (db\<lparr>paymentintent_coll :=
                with_email (buyer_email req)
                  (paymentintent_coll db @ [checkout_intent F E p x t (upper (currency req))])\<rparr>,
           Inr (checkout_response F E x (upper (currency req))))"
    by (intro create_checkout_run [OF r]) simp_all
  from h show "made_from p (checkout_intent F E p x t (upper (currency req)))"
    by (simp add: made_from_checkout_intent)
next
  show "(create_checkout F E req db = (db, Inl (HTTPException 404 ''Product not found'')))
       = (lookup_product db (product_id req) = None
          \<and> find_one active_with_title (product_coll db) = None)"
    by (simp only: create_checkout_404_iff resolve_product_None_iff)
qed

theorem checkout_fallback_witness:
  "create_checkout exact_ops demo_env (demo_checkout ''nope'' None) demo_store =
     (demo_store\<lparr>paymentintent_coll :=
        [demo_intent, checkout_intent exact_ops demo_env demo_product 120 ''Mug'' ''BTC'']\<rparr>,
      Inr (checkout_response exact_ops demo_env 120 ''BTC''))"
proof -
  let ?req = "demo_checkout ''nope'' None"
  have cur: "upper (currency ?req) = ''BTC''"
    by (simp add: demo_checkout_def upper_btc)
  have h: "lookup_product demo_store (product_id ?req) = None
      \<and> find_one active_with_title (product_coll demo_store) = Some demo_product
      \<and> map_of (doc_fields demo_product) ''price_usd'' = Some (PFloat 120)
      \<and> fge0 exact_ops 120
      \<and> map_of (doc_fields demo_product) ''title'' = Some (PStr ''Mug'')
      \<and> upper (currency ?req) \<in> currencies
      \<and> fge0 exact_ops (usd_to_crypto exact_ops 120 (upper (currency ?req)))"
    unfolding cur demo_crypto
    by (simp add: lookup_product_def ObjectId_def demo_checkout_def find_one_def
        active_with_title_def has_id_def demo_store_def demo_product_def exact_ops_def
        currencies_def)
  have e: "buyer_email ?req = None" "paymentintent_coll demo_store = [demo_intent]"
    by (simp_all add: demo_checkout_def demo_store_def)
  from checkout_fallback [where db = demo_store and req = ?req and p = demo_product
      and x = 120 and F = exact_ops and t = "''Mug''" and E = demo_env] h
  show ?thesis
    by (simp add: cur e)
qed

text \<open>
  Without the condition on the currency the first part of claim C1 fails. The request
  names no stored product and an active product exists, yet with the currency
  \<^verbatim>\<open>eth\<close> the construction of the intent is refused by the schema: the call raises a
  validation error and stores nothing.
\<close>

theorem checkout_fallback_bad_currency:
  "lookup_product demo_store ''nope'' = None
   \<and> find_one active_with_title (product_coll demo_store) = Some demo_product
   \<and> create_checkout exact_ops demo_env
        \<lparr>product_id = ''nope'', currency = ''eth'', buyer_email = None\<rparr> demo_store
      = (demo_store, Inl ValidationError)"
proof -
  have "lookup_product demo_store ''nope'' = None"
    by (simp add: lookup_product_def ObjectId_def)
  moreover have "find_one active_with_title (product_coll demo_store) = Some demo_product"
    by (simp add: find_one_def active_with_title_def has_id_def demo_store_def
        demo_product_def)
  ultimately show ?thesis
    using demo_bad_currency [OF demo_resolve_nope] by simp
qed

text \<open>
  Claim C10, amended. When the \<^verbatim>\<open>product_id\<close> of the request is the empty text, the
  resolution is the default lookup of an active product alone. If there is one, of the
  \<^verbatim>\<open>Product\<close> schema, and the currency of the request, in upper case, is one of
  \<^verbatim>\<open>USDC\<close>, \<^verbatim>\<open>USDT\<close> and \<^verbatim>\<open>BTC\<close>, the intent is made from it; the call fails
  with status 404 exactly when there is none.
\<close>

theorem checkout_empty_product_id:
  assumes empty: "product_id req = []"
  shows "resolve_product db (product_id req) = find_one active_with_title (product_coll db)
   \<and> (find_one active_with_title (product_coll db) = Some p
      \<and> map_of (doc_fields p) ''price_usd'' = Some (PFloat x) \<and> fge0 F x
      \<and> map_of (doc_fields p) ''title'' = Some (PStr t)
      \<and> upper (currency req) \<in> currencies
      \<and> fge0 F (usd_to_crypto F x (upper (currency req)))
    \<longrightarrow> create_checkout F E req db =
          (db\<lparr>paymentintent_coll :=
                with_email (buyer_email req)
                  (paymentintent_coll db @ [checkout_intent F E p x t (upper (currency req))])\<rparr>,
           Inr (checkout_response F E x (upper (currency req))))
        \<and> made_from p (checkout_intent F E p x t (upper (currency req))))
   \<and> ((create_checkout F E req db = (db, Inl (HTTPException 404 ''Product not found'')))
       = (find_one active_with_title (product_coll db) = None))"
proof -
  have r: "resolve_product db (product_id req) = find_one active_with_title (product_coll db)"
    using empty by (simp add: resolve_product_def)
  have run: "create_checkout F E req db =
          (db\<lparr>paymentintent_coll :=
                with_email (buyer_email req)
                  (paymentintent_coll db @ [checkout_intent F E p x t (upper (currency req))])\<rparr>,
           Inr (checkout_response F E x (upper (currency req))))
        \<and> made_from p (checkout_intent F E p x t (upper (currency req)))"
    if h: "find_one active_with_title (product_coll db) = Some p
      \<and> map_of (doc_fields p) ''price_usd'' = Some (PFloat x) \<and> fge0 F x
      \<and> map_of (doc_fields p) ''title'' = Some (PStr t)
      \<and> upper (currency req) \<in> currencies
      \<and> fge0 F (usd_to_crypto F x (upper (currency req)))"
  proof -
    from h r have rp: "resolve_product db (product_id req) = Some p"
      by simp
    from h have "create_checkout F E req db =
          (db\<lparr>paymentintent_coll :=
                with_email (buyer_email req)
                  (paymentintent_coll db @ [checkout_intent F E p x t (upper (currency req))])\<rparr>,
           Inr (checkout_response F E x (upper (currency req))))"
      by (intro create_checkout_run [OF rp]) simp_all
    with h show ?thesis
      by (simp add: made_from_checkout_intent)
  qed
  have nf: "(create_checkout F E req db = (db, Inl (HTTPException 404 ''Product not found'')))
       = (find_one active_with_title (product_coll db) = None)"
    by (simp only: create_checkout_404_iff r)
  from r run nf show ?thesis
    by blast
qed

theorem checkout_empty_product_id_witness:
  "create_checkout exact_ops demo_env (demo_checkout '''' None) demo_store =
     (demo_store\<lparr>paymentintent_coll :=
        [demo_intent, checkout_intent exact_ops demo_env demo_product 120 ''Mug'' ''BTC'']\<rparr>,
      Inr (checkout_response exact_ops demo_env 120 ''BTC''))"
proof -
  let ?req = "demo_checkout '''' None"
  have cur: "upper (currency ?req) = ''BTC''"
    by (simp add: demo_checkout_def upper_btc)
  have pid: "product_id ?req = []"
    by (simp add: demo_checkout_def)
  have h: "find_one active_with_title (product_coll demo_store) = Some demo_product
      \<and> map_of (doc_fields demo_product) ''price_usd'' = Some (PFloat 120)
      \<and> fge0 exact_ops 120
      \<and> map_of (doc_fields demo_product) ''title'' = Some (PStr ''Mug'')
      \<and> upper (currency ?req) \<in> currencies
      \<and> fge0 exact_ops (usd_to_crypto exact_ops 120 (upper (currency ?req)))"
    unfolding cur demo_crypto
    by (simp add: find_one_def active_with_title_def has_id_def demo_store_def
        demo_product_def exact_ops_def currencies_def)
  have e: "buyer_email ?req = None" "paymentintent_coll demo_store = [demo_intent]"
    by (simp_all add: demo_checkout_def demo_store_def)
  from checkout_empty_product_id [OF pid, where db = demo_store and p = demo_product
      and x = 120 and F = exact_ops and t = "''Mug''" and E = demo_env] h
  show ?thesis
    by (simp add: cur e)
qed

text \<open>
  Without the condition on the currency claim C10 fails in the same way: with the empty
  \<^verbatim>\<open>product_id\<close>, an active product and the currency \<^verbatim>\<open>eth\<close>, the call raises a
  validation error and no intent is made.
\<close>

theorem checkout_empty_product_id_bad_currency:
  "find_one active_with_title (product_coll demo_store) = Some demo_product
   \<and> create_checkout exact_ops demo_env
        \<lparr>product_id = '''', currency = ''eth'', buyer_email = None\<rparr> demo_store
      = (demo_store, Inl ValidationError)"
proof -
  have "find_one active_with_title (product_coll demo_store) = Some demo_product"
    by (simp add: find_one_def active_with_title_def has_id_def demo_store_def
        demo_product_def)
  then show ?thesis
    using demo_bad_currency [OF demo_resolve_empty] by simp
qed

section \<open>Properties of the dashboard\<close>










section \<open>Properties of the status query\<close>

text \<open>
  Claim C5. For an identifier that does not parse, the status query answers with status
  404 and the message \<^verbatim>\<open>Invalid intent id\<close>, where the claim has 400; the webhook
  handler answers the same failure, with the same message, with status 400.
\<close>

theorem invalid_id_status_codes:
  "get_payment_status demo_store ''xyz'' = Inl (HTTPException 404 ''Invalid intent id'')
   \<and> snd (webhook_mark_paid exact_ops demo_env \<lparr>intent_id = ''xyz'', secret = ''demo-secret''\<rparr>
        demo_store) = Inl (HTTPException 400 ''Invalid intent id'')"
  by (simp add: get_payment_status_def webhook_mark_paid_def ObjectId_def demo_env_def)

end
